theory Spec2Isabelle
  imports
    Complex_Main
    "HOL-Library.Multiset"
    "HOL-Library.Char_ord"
    "HOL-Library.List_Lexorder"
    "HOL-Library.Product_Lexorder"
begin

section \<open>Tables\<close>

text \<open>
  A table (a pandas DataFrame, or a table of the SQLite file) is a list of column names
  and a list of rows. A cell is NULL (also the NaN that \<open>read_csv\<close> makes of a missing
  field and \<open>to_sql\<close> stores as NULL), a number, or a text: \<open>read_csv\<close> keeps the
  fields of a column as strings as soon as one of them is not a number, and
  \<open>load_raw_data\<close> checks the names of the columns only. Numbers are rationals:
  comparison, equality and ordering of floats and integers are exact on the numbers
  they denote.
\<close>

datatype cell = Null | Num rat | Text string

type_synonym row = "cell list"

record dataframe =
  columns :: "string list"
  rows :: "row list"

definition cell_of :: "string list \<Rightarrow> row \<Rightarrow> string \<Rightarrow> cell" where
  "cell_of cols r name = (case map_of (zip cols r) name of None \<Rightarrow> Null | Some c \<Rightarrow> c)"

text \<open>\<open>df.empty\<close>: an axis of length zero.\<close>

definition df_empty :: "dataframe \<Rightarrow> bool" where
  "df_empty df = (rows df = [] \<or> columns df = [])"

text \<open>
  A column with a string in it has dtype \<open>object\<close>, and \<open>to_sql\<close> declares it \<open>TEXT\<close>;
  a column of numbers and NaN is declared \<open>INTEGER\<close> or \<open>REAL\<close>.
\<close>

fun is_text :: "cell \<Rightarrow> bool" where
  "is_text (Text _) = True"
| "is_text _ = False"

definition text_column :: "dataframe \<Rightarrow> string \<Rightarrow> bool" where
  "text_column df c = list_ex (\<lambda>r. is_text (cell_of (columns df) r c)) (rows df)"

section \<open>Exceptions\<close>

text \<open>
  The exceptions that reach a caller, by Python class. The three \<open>ValueError\<close>s of
  ingestion are told apart by their message; \<open>Parser_failure\<close> is what \<open>read_csv\<close>
  raises on a file it cannot parse (pandas' parser errors derive from \<open>ValueError\<close>);
  \<open>Invalid_literal\<close> is what \<open>int\<close> raises on a string that is not an integer.
\<close>

datatype value_error =
    Csv_file_is_empty
  | Missing_required_columns "string list"
  | Parser_failure
  | Invalid_literal string

datatype error =
    FileNotFoundError string
  | ValueError value_error
  | OSError string
  | SqliteError string
  | TypeError
  | IndexError
  | KeyError string
  | JSONDecodeError

text \<open>
  The kinds of section 7 of the specification, as the \<open>except\<close> clauses of the source
  select them: \<open>except FileNotFoundError\<close> (``File Error''), \<open>except ValueError\<close>
  (``Validation Error''), \<open>except sqlite3.Error\<close> (``Database Error'', ``SQL Query
  Error''), and \<open>except Exception\<close> for the rest.
\<close>

datatype error_kind = NotFound | Validation | Query | IOPermission | Unexpected

fun kind_of :: "error \<Rightarrow> error_kind" where
  "kind_of (FileNotFoundError _) = NotFound"
| "kind_of (ValueError _) = Validation"
| "kind_of (SqliteError _) = Query"
| "kind_of (OSError _) = IOPermission"
| "kind_of TypeError = Unexpected"
| "kind_of IndexError = Unexpected"
| "kind_of (KeyError _) = Unexpected"
| "kind_of JSONDecodeError = Validation"

section \<open>The storage manager's world\<close>

text \<open>
  What \<open>pd.read_csv\<close> makes of a file: a table, or a parse failure.
\<close>

datatype csv_file = Unparseable | Csv dataframe

record entry =
  timestamp :: string
  dataset_name :: string
  data_hash :: string
  row_count :: nat
  column_count :: nat
  file_path :: string

text \<open>
  \<open>metadata/data_registry.json\<close>: absent, a document \<open>{'datasets': [...]}\<close>, or a file
  that \<open>json.load\<close> rejects (\<open>json.JSONDecodeError\<close>, which derives from
  \<open>ValueError\<close>).
\<close>

datatype registry_file = Absent | Datasets "entry list" | Malformed

text \<open>The I/O steps of ingestion, in the order they are performed.\<close>

datatype io_op =
    PathExists string
  | ReadCsv string
  | WriteCsv string
  | ToSql string
  | CreateIndex string
  | ReadJson string
  | WriteJson string

text \<open>
  The state a \<open>DataStorageManager\<close> works on: the CSV files by path, the tables of
  \<open>database/fraud_detection.db\<close> and the indexes on its \<open>raw_transactions\<close> table, the
  registry file, and what the environment
  decides: whether the raw directory, the database file and the registry file can be
  written, the digest that \<open>hashlib.sha256\<close> over \<open>pd.util.hash_pandas_object\<close> gives
  a table (\<open>None\<close> when that raises), and the text SQLite makes of a number that
  meets a \<open>TEXT\<close> column (\<open>'1000'\<close> of the integer 1000; numbers here do not carry
  whether they are \<open>INTEGER\<close> or \<open>REAL\<close>, so this too is left to the environment).
\<close>

record storage =
  project_root :: string
  files :: "string \<rightharpoonup> csv_file"
  tables :: "string \<rightharpoonup> dataframe"
  indexes :: "string set"
  registry :: registry_file
  raw_writable :: bool
  db_accessible :: bool
  registry_writable :: bool
  digest :: "dataframe \<Rightarrow> string option"
  number_text :: "rat \<Rightarrow> string"
  trace :: "io_op list"

definition log_op :: "io_op \<Rightarrow> storage \<Rightarrow> storage" where
  "log_op ev s = s\<lparr>trace := trace s @ [ev]\<rparr>"

section \<open>Queries\<close>

text \<open>
  The helpers build their SQL text from fixed templates; the fragment of SQL they use is
  \<open>SELECT * FROM t [WHERE c] [ORDER BY col [DESC]] [LIMIT n]\<close> and one row of
  aggregates.

  SQLite holds a number that is put in a \<open>TEXT\<close> column as its text. It compares a
  column with a numeric literal after giving the literal the affinity of the column: in
  a \<open>TEXT\<close> column the literal becomes its text and the comparison is that of the
  bytes of the two strings; elsewhere it is that of the two numbers. A comparison with
  NULL is not true, so the row is dropped. \<open>ORDER BY\<close> puts NULL first, then the
  numbers, then the texts by their bytes; the order among equal keys is left to SQLite,
  and is the stored order here. A negative \<open>LIMIT\<close> is no limit.
\<close>

datatype comparison = Equals | AtLeast | AtMost

datatype condition =
    Cmp string comparison rat
  | Both condition condition

datatype direction = Ascending | Descending

datatype aggregate =
    CountStar
  | SumCaseEq string rat

datatype sql =
    SelectAll string "condition option" "(string \<times> direction) option" "int option"
  | SelectAggregates "(string \<times> aggregate) list" string

fun condition_columns :: "condition \<Rightarrow> string list" where
  "condition_columns (Cmp c _ _) = [c]"
| "condition_columns (Both p q) = condition_columns p @ condition_columns q"

fun aggregate_columns :: "aggregate \<Rightarrow> string list" where
  "aggregate_columns CountStar = []"
| "aggregate_columns (SumCaseEq c _) = [c]"

text \<open>What the database holds of a cell, of a row and of a table given to \<open>to_sql\<close>.\<close>

definition stored_cell :: "(rat \<Rightarrow> string) \<Rightarrow> bool \<Rightarrow> cell \<Rightarrow> cell" where
  "stored_cell as_text text_col x =
     (case x of Num q \<Rightarrow> if text_col then Text (as_text q) else Num q | _ \<Rightarrow> x)"

fun stored_row :: "(rat \<Rightarrow> string) \<Rightarrow> (string \<Rightarrow> bool) \<Rightarrow> string list \<Rightarrow> row \<Rightarrow> row" where
  "stored_row as_text text_col (c # cs) (x # xs) =
     stored_cell as_text (text_col c) x # stored_row as_text text_col cs xs"
| "stored_row as_text text_col cs xs = xs"

definition stored_rows :: "(rat \<Rightarrow> string) \<Rightarrow> dataframe \<Rightarrow> row list" where
  "stored_rows as_text t = map (stored_row as_text (text_column t) (columns t)) (rows t)"

text \<open>The order of SQLite's storage classes, and within each class.\<close>

fun sql_order :: "cell \<Rightarrow> nat \<times> rat \<times> string" where
  "sql_order Null = (0, 0, [])"
| "sql_order (Num q) = (1, q, [])"
| "sql_order (Text t) = (2, 0, t)"

definition literal :: "(rat \<Rightarrow> string) \<Rightarrow> dataframe \<Rightarrow> string \<Rightarrow> rat \<Rightarrow> cell" where
  "literal as_text t c v = (if text_column t c then Text (as_text v) else Num v)"

fun compare_cell :: "comparison \<Rightarrow> cell \<Rightarrow> cell \<Rightarrow> bool" where
  "compare_cell Equals a v = (a = v)"
| "compare_cell AtLeast a v = (sql_order v \<le> sql_order a)"
| "compare_cell AtMost a v = (sql_order a \<le> sql_order v)"

text \<open>Whether a condition is true of a stored row of table \<open>t\<close>.\<close>

fun holds :: "(rat \<Rightarrow> string) \<Rightarrow> dataframe \<Rightarrow> condition \<Rightarrow> row \<Rightarrow> bool" where
  "holds as_text t (Cmp c op v) r =
     (if cell_of (columns t) r c = Null then False
      else compare_cell op (cell_of (columns t) r c) (literal as_text t c v))"
| "holds as_text t (Both p q) r = (holds as_text t p r \<and> holds as_text t q r)"

definition apply_where ::
  "(rat \<Rightarrow> string) \<Rightarrow> dataframe \<Rightarrow> condition option \<Rightarrow> row list \<Rightarrow> row list" where
  "apply_where as_text t w rs = (case w of None \<Rightarrow> rs | Some c \<Rightarrow> filter (holds as_text t c) rs)"

definition apply_order ::
  "string list \<Rightarrow> (string \<times> direction) option \<Rightarrow> row list \<Rightarrow> row list" where
  "apply_order cols ob rs =
     (case ob of
        None \<Rightarrow> rs
      | Some (c, Ascending) \<Rightarrow> sort_key (\<lambda>r. sql_order (cell_of cols r c)) rs
      | Some (c, Descending) \<Rightarrow> rev (sort_key (\<lambda>r. sql_order (cell_of cols r c)) (rev rs)))"

definition apply_limit :: "int option \<Rightarrow> row list \<Rightarrow> row list" where
  "apply_limit lmt rs =
     (case lmt of None \<Rightarrow> rs | Some n \<Rightarrow> if n < 0 then rs else take (nat n) rs)"

text \<open>
  \<open>COUNT(*)\<close>, and \<open>SUM(CASE WHEN c = v THEN 1 ELSE 0 END)\<close>, which is NULL over no
  rows.
\<close>

fun aggregate_value :: "(rat \<Rightarrow> string) \<Rightarrow> dataframe \<Rightarrow> row list \<Rightarrow> aggregate \<Rightarrow> cell" where
  "aggregate_value as_text t rs CountStar = Num (of_nat (length rs))"
| "aggregate_value as_text t rs (SumCaseEq c v) =
     (if rs = [] then Null
      else Num (of_nat (length (filter (holds as_text t (Cmp c Equals v)) rs))))"

definition known_columns :: "dataframe \<Rightarrow> string list \<Rightarrow> bool" where
  "known_columns t cs = list_all (\<lambda>c. c \<in> set (columns t)) cs"

fun execute :: "(rat \<Rightarrow> string) \<Rightarrow> (string \<rightharpoonup> dataframe) \<Rightarrow> sql \<Rightarrow> error + dataframe" where
  "execute as_text db (SelectAll tbl w ob lmt) =
     (case db tbl of
        None \<Rightarrow> Inl (SqliteError (''no such table: '' @ tbl))
      | Some t \<Rightarrow>
          if \<not> known_columns t
                 ((case w of None \<Rightarrow> [] | Some c \<Rightarrow> condition_columns c) @
                  (case ob of None \<Rightarrow> [] | Some (c, _) \<Rightarrow> [c]))
          then Inl (SqliteError ''no such column'')
          else Inr \<lparr>columns = columns t,
                    rows = apply_limit lmt
                             (apply_order (columns t) ob
                                (apply_where as_text t w (stored_rows as_text t)))\<rparr>)"
| "execute as_text db (SelectAggregates aggs tbl) =
     (case db tbl of
        None \<Rightarrow> Inl (SqliteError (''no such table: '' @ tbl))
      | Some t \<Rightarrow>
          if \<not> known_columns t (concat (map (\<lambda>(_, a). aggregate_columns a) aggs))
          then Inl (SqliteError ''no such column'')
          else Inr \<lparr>columns = map fst aggs,
                    rows = [map (\<lambda>(_, a). aggregate_value as_text t (stored_rows as_text t) a)
                              aggs]\<rparr>)"

text \<open>\<open>query_data\<close>: connect, run the query, return the result set; every error is re-raised.\<close>

definition query_data :: "sql \<Rightarrow> storage \<Rightarrow> error + dataframe" where
  "query_data sql_query s =
     (if \<not> db_accessible s then Inl (SqliteError ''unable to open database file'')
      else execute (number_text s) (tables s) sql_query)"

text \<open>
  \<open>if limit: query += f" LIMIT {limit}"\<close>: the clause is appended when \<open>limit\<close> is
  truthy, that is neither \<open>None\<close> nor \<open>0\<close>.
\<close>

definition limit_clause :: "int option \<Rightarrow> int option" where
  "limit_clause limit = (case limit of None \<Rightarrow> None | Some n \<Rightarrow> if n = 0 then None else Some n)"

definition get_fraud_transactions :: "int option \<Rightarrow> storage \<Rightarrow> error + dataframe" where
  "get_fraud_transactions limit s =
     query_data (SelectAll ''raw_transactions'' (Some (Cmp ''Class'' Equals 1)) None
                   (limit_clause limit)) s"

definition get_legitimate_transactions :: "int option \<Rightarrow> storage \<Rightarrow> error + dataframe" where
  "get_legitimate_transactions limit s =
     query_data (SelectAll ''raw_transactions'' (Some (Cmp ''Class'' Equals 0)) None
                   (limit_clause limit)) s"

definition get_high_value_transactions ::
  "rat \<Rightarrow> int option \<Rightarrow> storage \<Rightarrow> error + dataframe" where
  "get_high_value_transactions amount_threshold limit s =
     query_data (SelectAll ''raw_transactions'' (Some (Cmp ''Amount'' AtLeast amount_threshold))
                   (Some (''Amount'', Descending)) (limit_clause limit)) s"

definition get_transactions_by_time_range :: "rat \<Rightarrow> rat \<Rightarrow> storage \<Rightarrow> error + dataframe" where
  "get_transactions_by_time_range start_time end_time s =
     query_data (SelectAll ''raw_transactions''
                   (Some (Both (Cmp ''Time'' AtLeast start_time) (Cmp ''Time'' AtMost end_time)))
                   (Some (''Time'', Ascending)) None) s"

subsection \<open>Transaction counts\<close>

record transaction_count =
  total_count :: int
  fraud :: int
  legitimate :: int
  fraud_rate :: rat

text \<open>
  \<open>int\<close> of a string: an optional sign and decimal digits (Python also takes blanks
  around them and underscores between them).
\<close>

definition digit_value :: "char \<Rightarrow> nat option" where
  "digit_value ch =
     map_of [(CHR ''0'', 0), (CHR ''1'', 1), (CHR ''2'', 2), (CHR ''3'', 3), (CHR ''4'', 4),
             (CHR ''5'', 5), (CHR ''6'', 6), (CHR ''7'', 7), (CHR ''8'', 8), (CHR ''9'', 9)] ch"

fun digits_value :: "nat \<Rightarrow> string \<Rightarrow> nat option" where
  "digits_value acc [] = Some acc"
| "digits_value acc (ch # rest) =
     (case digit_value ch of None \<Rightarrow> None | Some d \<Rightarrow> digits_value (10 * acc + d) rest)"

definition int_of_text :: "string \<Rightarrow> int option" where
  "int_of_text t =
     (case t of
        [] \<Rightarrow> None
      | ch # rest \<Rightarrow>
          if ch = CHR ''-'' \<and> rest \<noteq> [] then map_option (\<lambda>n. - int n) (digits_value 0 rest)
          else if ch = CHR ''+'' \<and> rest \<noteq> [] then map_option int (digits_value 0 rest)
          else map_option int (digits_value 0 t))"

text \<open>\<open>result[col].iloc[0]\<close> and \<open>int(...)\<close>; \<open>int(None)\<close> raises \<open>TypeError\<close>.\<close>

definition iloc0 :: "dataframe \<Rightarrow> string \<Rightarrow> error + cell" where
  "iloc0 result col =
     (if col \<notin> set (columns result) then Inl (KeyError col)
      else case rows result of [] \<Rightarrow> Inl IndexError | r # _ \<Rightarrow> Inr (cell_of (columns result) r col))"

definition py_int :: "cell \<Rightarrow> error + int" where
  "py_int c =
     (case c of
        Null \<Rightarrow> Inl TypeError
      | Num q \<Rightarrow> Inr (if 0 \<le> q then \<lfloor>q\<rfloor> else \<lceil>q\<rceil>)
      | Text t \<Rightarrow> (case int_of_text t of
                    None \<Rightarrow> Inl (ValueError (Invalid_literal t))
                  | Some n \<Rightarrow> Inr n))"

definition int_at :: "dataframe \<Rightarrow> string \<Rightarrow> error + int" where
  "int_at result col = (case iloc0 result col of Inl e \<Rightarrow> Inl e | Inr c \<Rightarrow> py_int c)"

text \<open>
  \<open>round(x, 3)\<close>, ties to even. The rate is computed here on exact rationals; the
  source computes it in floating point, and the two agree wherever the statements below
  use it (a rate of zero).
\<close>

definition round_half_even :: "rat \<Rightarrow> int" where
  "round_half_even x =
     (let f = \<lfloor>x\<rfloor>; d = x - of_int f
      in if d < 1 / 2 then f else if 1 / 2 < d then f + 1 else if even f then f else f + 1)"

definition round3 :: "rat \<Rightarrow> rat" where
  "round3 x = of_int (round_half_even (x * 1000)) / 1000"

definition counts_query :: sql where
  "counts_query =
     SelectAggregates
       [(''total'', CountStar),
        (''fraud'', SumCaseEq ''Class'' 1),
        (''legitimate'', SumCaseEq ''Class'' 0)]
       ''raw_transactions''"

definition get_transaction_count :: "storage \<Rightarrow> error + transaction_count" where
  "get_transaction_count s =
     (case query_data counts_query s of
        Inl e \<Rightarrow> Inl e
      | Inr result \<Rightarrow>
          (case int_at result ''total'' of
             Inl e \<Rightarrow> Inl e
           | Inr total_n \<Rightarrow>
               (case int_at result ''fraud'' of
                  Inl e \<Rightarrow> Inl e
                | Inr fraud_n \<Rightarrow>
                    (case int_at result ''legitimate'' of
                       Inl e \<Rightarrow> Inl e
                     | Inr legitimate_n \<Rightarrow>
                         Inr \<lparr>total_count = total_n,
                              fraud = fraud_n,
                              legitimate = legitimate_n,
                              fraud_rate =
                                round3 (if 0 < total_n
                                        then of_int fraud_n / of_int total_n * 100
                                        else 0)\<rparr>))))"

section \<open>Ingestion\<close>

definition expected_cols :: "string list" where
  "expected_cols = [''Time'', ''Amount'', ''Class'']"

definition missing_cols :: "dataframe \<Rightarrow> string list" where
  "missing_cols df = filter (\<lambda>col. col \<notin> set (columns df)) expected_cols"

text \<open>\<open>_calculate_data_hash\<close>: the digest, or the sentinel when computing it raises.\<close>

definition calculate_data_hash :: "dataframe \<Rightarrow> storage \<Rightarrow> string" where
  "calculate_data_hash df s = (case digest s df of None \<Rightarrow> ''hash_unavailable'' | Some h \<Rightarrow> h)"

definition raw_output_path :: "storage \<Rightarrow> string \<Rightarrow> string" where
  "raw_output_path s name = project_root s @ ''/data/raw/'' @ name @ ''.csv''"

definition metadata_path :: "storage \<Rightarrow> string" where
  "metadata_path s = project_root s @ ''/metadata/data_registry.json''"

text \<open>
  \<open>df.to_csv(raw_output_path, index=False)\<close>: the file at that path now reads back as
  \<open>df\<close>, or the write raises and nothing changes.
\<close>

definition to_csv :: "dataframe \<Rightarrow> string \<Rightarrow> storage \<Rightarrow> error option \<times> storage" where
  "to_csv df path s =
     (if \<not> raw_writable s then (Some (OSError path), s)
      else (None, log_op (WriteCsv path) (s\<lparr>files := (files s)(path \<mapsto> Csv df)\<rparr>)))"

text \<open>
  \<open>_save_to_sqlite\<close>: \<open>to_sql(..., if_exists='replace')\<close> drops the table, and with it
  its indexes, and puts \<open>df\<close> in its place; for \<open>raw_transactions\<close> the three
  \<open>CREATE INDEX IF NOT EXISTS\<close> statements then run in the order of the source, each
  needing its column. Both handlers re-raise.
\<close>

definition index_columns :: "(string \<times> string) list" where
  "index_columns = [(''idx_class'', ''Class''), (''idx_time'', ''Time''), (''idx_amount'', ''Amount'')]"

fun create_indexes :: "(string \<times> string) list \<Rightarrow> dataframe \<Rightarrow> storage \<Rightarrow> error option \<times> storage" where
  "create_indexes [] df s = (None, s)"
| "create_indexes ((idx, col) # rest) df s =
     (if col \<in> set (columns df)
      then create_indexes rest df (log_op (CreateIndex idx) (s\<lparr>indexes := insert idx (indexes s)\<rparr>))
      else (Some (SqliteError (''no such column: '' @ col)), s))"

definition save_to_sqlite :: "dataframe \<Rightarrow> string \<Rightarrow> storage \<Rightarrow> error option \<times> storage" where
  "save_to_sqlite df table_name s =
     (if \<not> db_accessible s then (Some (SqliteError ''unable to open database file''), s)
      else
        (let s1 = log_op (ToSql table_name)
                    (s\<lparr>tables := (tables s)(table_name \<mapsto> df),
                       indexes := (if table_name = ''raw_transactions'' then {} else indexes s)\<rparr>)
         in if table_name = ''raw_transactions''
            then create_indexes index_columns df s1
            else (None, s1)))"

text \<open>
  \<open>_record_metadata\<close>. The body of its \<open>try\<close> reads the registry if the file exists,
  appends the entry and writes the document back; the handler prints a warning and
  returns, so the caller never sees the exception.
\<close>

definition write_registry :: "entry list \<Rightarrow> storage \<Rightarrow> error option \<times> storage" where
  "write_registry es s =
     (if \<not> registry_writable s then (Some (OSError (metadata_path s)), s)
      else (None, log_op (WriteJson (metadata_path s)) (s\<lparr>registry := Datasets es\<rparr>)))"

definition record_metadata_try :: "entry \<Rightarrow> storage \<Rightarrow> error option \<times> storage" where
  "record_metadata_try e s =
     (let s1 = log_op (PathExists (metadata_path s)) s
      in case registry s1 of
           Absent \<Rightarrow> write_registry [e] s1
         | Malformed \<Rightarrow> (Some JSONDecodeError, log_op (ReadJson (metadata_path s)) s1)
         | Datasets es \<Rightarrow> write_registry (es @ [e]) (log_op (ReadJson (metadata_path s)) s1))"

definition record_metadata ::
  "string \<Rightarrow> string \<Rightarrow> string \<Rightarrow> nat \<Rightarrow> nat \<Rightarrow> string \<Rightarrow> storage \<Rightarrow> storage" where
  "record_metadata now name hash n_rows n_cols path s =
     snd (record_metadata_try
            \<lparr>timestamp = now, dataset_name = name, data_hash = hash,
             row_count = n_rows, column_count = n_cols, file_path = path\<rparr> s)"

text \<open>
  \<open>df['Class'].mean()\<close>, which the last \<open>print\<close> of \<open>load_raw_data\<close> evaluates: the
  mean is defined for a column of numbers and NaN, and raises \<open>TypeError\<close> for a
  column of dtype \<open>object\<close>. Its value is only printed.
\<close>

definition class_mean :: "dataframe \<Rightarrow> error option" where
  "class_mean df = (if text_column df ''Class'' then Some TypeError else None)"

text \<open>
  \<open>load_raw_data\<close>. The first argument is what \<open>datetime.now().isoformat()\<close> returns
  when the entry is made. The three handlers print and re-raise, so an exception leaves
  as it was raised.
\<close>

definition load_raw_data ::
  "string \<Rightarrow> string \<Rightarrow> string \<Rightarrow> storage \<Rightarrow> (error + dataframe) \<times> storage" where
  "load_raw_data now csv_path name s =
     (let s1 = log_op (PathExists csv_path) s
      in case files s1 csv_path of
           None \<Rightarrow> (Inl (FileNotFoundError csv_path), s1)
         | Some f \<Rightarrow>
             (let s2 = log_op (ReadCsv csv_path) s1
              in case f of
                   Unparseable \<Rightarrow> (Inl (ValueError Parser_failure), s2)
                 | Csv df \<Rightarrow>
                     if df_empty df then (Inl (ValueError Csv_file_is_empty), s2)
                     else if missing_cols df \<noteq> []
                     then (Inl (ValueError (Missing_required_columns (missing_cols df))), s2)
                     else
                       (let hash = calculate_data_hash df s2;
                            path = raw_output_path s2 name
                        in case to_csv df path s2 of
                             (Some e, s3) \<Rightarrow> (Inl e, s3)
                           | (None, s3) \<Rightarrow>
                               (case save_to_sqlite df ''raw_transactions'' s3 of
                                  (Some e, s4) \<Rightarrow> (Inl e, s4)
                                | (None, s4) \<Rightarrow>
                                    (let s5 = record_metadata now name hash (length (rows df))
                                                (length (columns df)) path s4
                                     in case class_mean df of
                                          Some e \<Rightarrow> (Inl e, s5)
                                        | None \<Rightarrow> (Inr df, s5))))))"

text \<open>
  The state \<open>load_raw_data\<close> has reached when it calls \<open>_record_metadata\<close>: the raw
  copy written, the table replaced, the indexes created.
\<close>

definition ingested :: "dataframe \<Rightarrow> string \<Rightarrow> string \<Rightarrow> storage \<Rightarrow> storage" where
  "ingested df csv_path name s =
     s\<lparr>files := (files s)(raw_output_path s name \<mapsto> Csv df),
       tables := (tables s)(''raw_transactions'' \<mapsto> df),
       indexes := {''idx_class'', ''idx_time'', ''idx_amount''},
       trace := trace s @ [PathExists csv_path, ReadCsv csv_path,
                           WriteCsv (raw_output_path s name),
                           ToSql ''raw_transactions'', CreateIndex ''idx_class'',
                           CreateIndex ''idx_time'', CreateIndex ''idx_amount'']\<rparr>"


text \<open>The number of rows of a table for which \<open>Class = v\<close> is true.\<close>

definition class_count :: "(rat \<Rightarrow> string) \<Rightarrow> dataframe \<Rightarrow> rat \<Rightarrow> nat" where
  "class_count as_text t v =
     length (filter (holds as_text t (Cmp ''Class'' Equals v)) (stored_rows as_text t))"

section \<open>Sample tables and states\<close>

text \<open>
  The numbers of the samples are whole, and the text SQLite makes of a whole
  \<open>INTEGER\<close> is its decimal digits.
\<close>

definition digit_char :: "nat \<Rightarrow> char" where
  "digit_char d = ''0123456789'' ! d"

fun decimal_nat :: "nat \<Rightarrow> string" where
  "decimal_nat n =
     (if n < 10 then [digit_char n] else decimal_nat (n div 10) @ [digit_char (n mod 10)])"

definition decimal :: "int \<Rightarrow> string" where
  "decimal i = (if i < 0 then CHR ''-'' # decimal_nat (nat (- i)) else decimal_nat (nat i))"

definition whole_text :: "rat \<Rightarrow> string" where
  "whole_text q = decimal \<lfloor>q\<rfloor>"

definition sample_df :: dataframe where
  "sample_df =
     \<lparr>columns = [''Time'', ''Amount'', ''Class''],
      rows = [[Num 0, Num 2500, Num 0],
              [Num 1, Num 50, Num 1],
              [Num 2, Num 1000, Num 0],
              [Num 3, Num 7000, Num 1],
              [Num 4, Null, Num 0],
              [Num 5, Num 1200, Num 0]]\<rparr>"

definition second_df :: dataframe where
  "second_df =
     \<lparr>columns = [''Time'', ''V1'', ''Amount'', ''Class''],
      rows = [[Num 0, Num (- 1), Num 20, Num 0],
              [Num 9, Num 3, Num 1500, Num 1]]\<rparr>"

definition lowercase_df :: dataframe where
  "lowercase_df =
     \<lparr>columns = [''Time'', ''amount'', ''Class''],
      rows = [[Num 0, Num 10, Num 1]]\<rparr>"

text \<open>
  A file with an amount written \<open>1,200.50\<close>: \<open>read_csv\<close> keeps the whole column as
  strings. And a file whose labels are words.
\<close>

definition text_amount_df :: dataframe where
  "text_amount_df =
     \<lparr>columns = [''Time'', ''Amount'', ''Class''],
      rows = [[Num 0, Text ''2500'', Num 0],
              [Num 1, Text ''50'', Num 1],
              [Num 2, Text ''1,200.50'', Num 0],
              [Num 3, Text ''7000'', Num 1],
              [Num 4, Null, Num 0],
              [Num 5, Text ''999'', Num 0]]\<rparr>"

definition text_class_df :: dataframe where
  "text_class_df =
     \<lparr>columns = [''Time'', ''Amount'', ''Class''],
      rows = [[Num 0, Num 10, Text ''fraud''],
              [Num 1, Num 20, Text ''legit'']]\<rparr>"

definition fresh_store :: storage where
  "fresh_store =
     \<lparr>project_root = ''proj'',
      files = [''in.csv'' \<mapsto> Csv sample_df,
               ''second.csv'' \<mapsto> Csv second_df,
               ''lower.csv'' \<mapsto> Csv lowercase_df,
               ''text.csv'' \<mapsto> Csv text_amount_df,
               ''labels.csv'' \<mapsto> Csv text_class_df],
      tables = Map.empty,
      indexes = {},
      registry = Absent,
      raw_writable = True,
      db_accessible = True,
      registry_writable = True,
      digest = (\<lambda>df. Some ''d0''),
      number_text = whole_text,
      trace = []\<rparr>"

definition sample_store :: storage where
  "sample_store = fresh_store\<lparr>tables := [''raw_transactions'' \<mapsto> sample_df]\<rparr>"

definition emptied_store :: storage where
  "emptied_store =
     fresh_store\<lparr>tables :=
       [''raw_transactions'' \<mapsto> \<lparr>columns = [''Time'', ''Amount'', ''Class''], rows = []\<rparr>]\<rparr>"

definition header_only_store :: storage where
  "header_only_store =
     fresh_store\<lparr>tables :=
       [''raw_transactions'' \<mapsto> \<lparr>columns = [''Time'', ''V1'', ''Amount'', ''Class''], rows = []\<rparr>]\<rparr>"



definition text_amount_store :: storage where
  "text_amount_store = fresh_store\<lparr>tables := [''raw_transactions'' \<mapsto> text_amount_df]\<rparr>"

section \<open>Facts about the model\<close>

subsection \<open>Ordering, stored rows and comparisons\<close>

lemma apply_order_mset: "mset (apply_order cols ob rs) = mset rs"
  by (auto simp: apply_order_def split: option.splits direction.splits)

lemma apply_order_desc_sorted:
  "sorted_wrt (\<lambda>r r'. sql_order (cell_of cols r' c) \<le> sql_order (cell_of cols r c))
     (apply_order cols (Some (c, Descending)) rs)"
proof -
  let ?f = "\<lambda>r. sql_order (cell_of cols r c)"
  have "sorted (map ?f (sort_key ?f (rev rs)))" by simp
  then have "sorted_wrt (\<lambda>r r'. ?f r \<le> ?f r') (sort_key ?f (rev rs))"
    by (simp add: sorted_wrt_map)
  then show ?thesis
    by (simp add: apply_order_def sorted_wrt_rev)
qed

lemma sorted_wrt_take_drop:
  assumes "sorted_wrt P xs" "x \<in> set (take n xs)" "y \<in> set (drop n xs)"
  shows "P x y"
proof -
  have "sorted_wrt P (take n xs @ drop n xs)" using assms(1) by simp
  then show ?thesis using assms(2,3) unfolding sorted_wrt_append by blast
qed

lemma sql_order_Num_le: "sql_order (Num a) \<le> sql_order (Num b) \<longleftrightarrow> a \<le> b"
  by auto

lemma stored_cell_simps:
  "stored_cell as_text b Null = Null"
  "stored_cell as_text b (Text x) = Text x"
  "stored_cell as_text False c = c"
  "stored_cell as_text True (Num q) = Text (as_text q)"
  by (simp_all add: stored_cell_def split: cell.splits)

lemma map_of_zip_stored_row:
  "map_of (zip cols (stored_row as_text tc cols r)) c =
     map_option (stored_cell as_text (tc c)) (map_of (zip cols r) c)"
  by (induction as_text tc cols r rule: stored_row.induct) simp_all

lemma cell_of_stored_row:
  "cell_of cols (stored_row as_text tc cols r) c = stored_cell as_text (tc c) (cell_of cols r c)"
  by (simp add: cell_of_def map_of_zip_stored_row stored_cell_simps split: option.splits)

lemma stored_row_no_text:
  "\<forall>c \<in> set cols. \<not> tc c \<Longrightarrow> stored_row as_text tc cols r = r"
  by (induction as_text tc cols r rule: stored_row.induct) (simp_all add: stored_cell_simps)

lemma text_columnD:
  "\<not> text_column t c \<Longrightarrow> r \<in> set (rows t) \<Longrightarrow> \<not> is_text (cell_of (columns t) r c)"
  by (auto simp: text_column_def list_ex_iff)

lemma stored_numeric_cell:
  assumes "\<not> text_column t c" and "r' \<in> set (stored_rows as_text t)"
  shows "\<exists>r \<in> set (rows t). cell_of (columns t) r' c = cell_of (columns t) r c \<and>
           \<not> is_text (cell_of (columns t) r c)"
  using assms
  by (auto simp: stored_rows_def cell_of_stored_row stored_cell_simps dest: text_columnD)

lemma high_value_unfold:
  assumes "db_accessible s" and "tables s ''raw_transactions'' = Some t"
    and "''Amount'' \<in> set (columns t)"
  shows "get_high_value_transactions th lmt s =
           Inr \<lparr>columns = columns t,
                rows = apply_limit (limit_clause lmt)
                         (apply_order (columns t) (Some (''Amount'', Descending))
                            (filter (holds (number_text s) t (Cmp ''Amount'' AtLeast th))
                               (stored_rows (number_text s) t)))\<rparr>"
  using assms
  by (simp add: get_high_value_transactions_def query_data_def known_columns_def apply_where_def
      del: holds.simps)

lemma holds_numeric_at_least:
  assumes "\<not> text_column t c" and "r' \<in> set (stored_rows as_text t)"
  shows "holds as_text t (Cmp c AtLeast v) r' \<longleftrightarrow>
           (\<exists>a. cell_of (columns t) r' c = Num a \<and> v \<le> a)"
proof -
  from stored_numeric_cell [OF assms] have "\<not> is_text (cell_of (columns t) r' c)"
    by auto
  then show ?thesis
    using assms(1) by (cases "cell_of (columns t) r' c") (auto simp: literal_def)
qed

lemma holds_numeric_equals:
  assumes "\<not> text_column t c"
  shows "holds as_text t (Cmp c Equals v) r' \<longleftrightarrow> cell_of (columns t) r' c = Num v"
  using assms by (cases "cell_of (columns t) r' c") (auto simp: literal_def)

subsection \<open>Limits and counts\<close>

lemma select_where_class:
  assumes "db_accessible s" and "tables s ''raw_transactions'' = Some t"
    and "''Class'' \<in> set (columns t)"
  shows "query_data (SelectAll ''raw_transactions'' (Some (Cmp ''Class'' Equals v)) None lmt) s =
           Inr \<lparr>columns = columns t,
                rows = apply_limit lmt
                         (filter (holds (number_text s) t (Cmp ''Class'' Equals v))
                            (stored_rows (number_text s) t))\<rparr>"
  using assms
  by (simp add: query_data_def known_columns_def apply_where_def apply_order_def del: holds.simps)

lemma apply_limit_positive: "0 < n \<Longrightarrow> int (length (apply_limit (limit_clause (Some n)) rs)) \<le> n"
  by (simp add: apply_limit_def limit_clause_def)

lemma apply_limit_omitted: "apply_limit (limit_clause None) rs = rs"
  by (simp add: apply_limit_def limit_clause_def)

lemma apply_limit_zero: "apply_limit (limit_clause (Some 0)) rs = rs"
  by (simp add: apply_limit_def limit_clause_def)

lemma limited_helpers_cap:
  assumes "db_accessible s" and "tables s ''raw_transactions'' = Some t"
    and "''Class'' \<in> set (columns t)" and "''Amount'' \<in> set (columns t)" and "0 < n"
  shows "\<exists>a b c. get_fraud_transactions (Some n) s = Inr a \<and> int (length (rows a)) \<le> n \<and>
                 get_legitimate_transactions (Some n) s = Inr b \<and> int (length (rows b)) \<le> n \<and>
                 get_high_value_transactions th (Some n) s = Inr c \<and> int (length (rows c)) \<le> n"
  using assms(5)
  by (simp add: get_fraud_transactions_def get_legitimate_transactions_def
      select_where_class [OF assms(1-3)] high_value_unfold [OF assms(1,2,4)] apply_limit_positive
      del: holds.simps)

lemma counts_result:
  assumes "db_accessible s" and "tables s ''raw_transactions'' = Some t"
    and "''Class'' \<in> set (columns t)"
  shows "query_data counts_query s =
           Inr \<lparr>columns = [''total'', ''fraud'', ''legitimate''],
                rows = [[aggregate_value (number_text s) t (stored_rows (number_text s) t) CountStar,
                         aggregate_value (number_text s) t (stored_rows (number_text s) t)
                           (SumCaseEq ''Class'' 1),
                         aggregate_value (number_text s) t (stored_rows (number_text s) t)
                           (SumCaseEq ''Class'' 0)]]\<rparr>"
  using assms
  by (simp add: query_data_def counts_query_def known_columns_def del: aggregate_value.simps)

lemma int_at_counts:
  "int_at \<lparr>columns = [''total'', ''fraud'', ''legitimate''], rows = [[a, b, c]]\<rparr> ''total'' = py_int a"
  "int_at \<lparr>columns = [''total'', ''fraud'', ''legitimate''], rows = [[a, b, c]]\<rparr> ''fraud'' = py_int b"
  "int_at \<lparr>columns = [''total'', ''fraud'', ''legitimate''], rows = [[a, b, c]]\<rparr> ''legitimate'' = py_int c"
  by (simp_all add: int_at_def iloc0_def cell_of_def)

lemma py_int_of_nat: "py_int (Num (of_nat n)) = Inr (int n)"
  by (simp add: py_int_def)

lemma stored_rows_Nil_iff: "stored_rows as_text t = [] \<longleftrightarrow> rows t = []"
  by (simp add: stored_rows_def)

lemma length_stored_rows: "length (stored_rows as_text t) = length (rows t)"
  by (simp add: stored_rows_def)

lemma get_transaction_count_no_rows:
  assumes "db_accessible s" and "tables s ''raw_transactions'' = Some t"
    and "''Class'' \<in> set (columns t)" and "rows t = []"
  shows "get_transaction_count s = Inl TypeError"
  using assms(4)
  by (simp add: get_transaction_count_def counts_result [OF assms(1-3)] int_at_counts py_int_def
      stored_rows_def)

lemma get_transaction_count_rows:
  assumes "db_accessible s" and "tables s ''raw_transactions'' = Some t"
    and "''Class'' \<in> set (columns t)" and "rows t \<noteq> []"
  shows "get_transaction_count s =
           Inr \<lparr>total_count = int (length (rows t)),
                fraud = int (class_count (number_text s) t 1),
                legitimate = int (class_count (number_text s) t 0),
                fraud_rate = round3 (of_nat (class_count (number_text s) t 1) /
                                     of_nat (length (rows t)) * 100)\<rparr>"
  using assms(4)
  by (simp add: get_transaction_count_def counts_result [OF assms(1-3)] int_at_counts
      py_int_of_nat class_count_def stored_rows_Nil_iff length_stored_rows del: holds.simps)

lemma round3_zero: "round3 0 = 0"
  by (simp add: round3_def round_half_even_def)

lemma binary_classes_partition:
  assumes "\<forall>r \<in> set rs. cell_of cols r ''Class'' = Num 0 \<or> cell_of cols r ''Class'' = Num 1"
  shows "length rs = length (filter (\<lambda>r. cell_of cols r ''Class'' = Num 1) rs) +
                     length (filter (\<lambda>r. cell_of cols r ''Class'' = Num 0) rs)"
  using assms by (induction rs) auto

lemma binary_classes_numeric:
  assumes "\<forall>r \<in> set (rows t). cell_of (columns t) r ''Class'' = Num 0 \<or>
                                cell_of (columns t) r ''Class'' = Num 1"
  shows "\<not> text_column t ''Class''"
  using assms by (auto simp: text_column_def list_ex_iff)

lemma class_count_numeric:
  assumes "\<not> text_column t ''Class''"
  shows "class_count as_text t v =
           length (filter (\<lambda>r. cell_of (columns t) r ''Class'' = Num v) (rows t))"
proof -
  have "class_count as_text t v =
          length (filter (\<lambda>r. cell_of (columns t) r ''Class'' = Num v) (stored_rows as_text t))"
    unfolding class_count_def holds_numeric_equals [OF assms] ..
  also have "\<dots> = length (filter (\<lambda>r. cell_of (columns t) r ''Class'' = Num v) (rows t))"
    using assms
    by (simp add: stored_rows_def filter_map o_def cell_of_stored_row stored_cell_simps)
  finally show ?thesis .
qed

lemma transaction_count_nonempty_binary:
  assumes "db_accessible s" and "tables s ''raw_transactions'' = Some t"
    and "''Class'' \<in> set (columns t)" and "rows t \<noteq> []"
    and "\<forall>r \<in> set (rows t). cell_of (columns t) r ''Class'' = Num 0 \<or>
                                 cell_of (columns t) r ''Class'' = Num 1"
  shows "\<exists>c. get_transaction_count s = Inr c \<and> total_count c = fraud c + legitimate c \<and>
             fraud c = int (length (filter (\<lambda>r. cell_of (columns t) r ''Class'' = Num 1) (rows t))) \<and>
             legitimate c = int (length (filter (\<lambda>r. cell_of (columns t) r ''Class'' = Num 0) (rows t)))"
  using binary_classes_partition [OF assms(5)]
  by (simp add: get_transaction_count_rows [OF assms(1-4)]
      class_count_numeric [OF binary_classes_numeric [OF assms(5)]])

lemma transaction_count_no_fraud_nonempty:
  assumes "db_accessible s" and "tables s ''raw_transactions'' = Some t"
    and "''Class'' \<in> set (columns t)" and "rows t \<noteq> []"
    and "class_count (number_text s) t 1 = 0"
  shows "\<exists>c. get_transaction_count s = Inr c \<and> fraud c = 0 \<and> fraud_rate c = 0"
  using assms(5)
  by (simp add: get_transaction_count_rows [OF assms(1-4)] round3_zero)

lemma sample_numeric: "\<not> text_column sample_df c"
  by (simp add: text_column_def sample_df_def cell_of_def)

lemma sample_stored: "stored_rows as_text sample_df = rows sample_df"
proof -
  have "stored_row as_text (text_column sample_df) (columns sample_df) r = r" for r
    by (rule stored_row_no_text) (simp add: sample_numeric)
  then have "map (stored_row as_text (text_column sample_df) (columns sample_df)) rs = rs" for rs
    by (induction rs) simp_all
  then show ?thesis by (simp add: stored_rows_def)
qed

lemma whole_text_1000: "whole_text 1000 = ''1000''"
  by (simp add: whole_text_def decimal_def digit_char_def)

lemma text_amount_valid:
  "\<not> df_empty text_amount_df" "missing_cols text_amount_df = []"
  "\<not> text_column text_amount_df ''Class''"
  by (simp_all add: df_empty_def missing_cols_def expected_cols_def text_column_def cell_of_def
      text_amount_df_def)

lemma text_amount_columns:
  "text_column text_amount_df ''Amount''" "\<not> text_column text_amount_df ''Time''"
  "columns text_amount_df = [''Time'', ''Amount'', ''Class'']"
  by (simp_all add: text_column_def cell_of_def text_amount_df_def)

lemma text_amount_stored: "stored_rows as_text text_amount_df = rows text_amount_df"
  by (simp add: stored_rows_def text_column_def cell_of_def text_amount_df_def stored_cell_def)

lemma text_amount_selected:
  "filter (holds whole_text text_amount_df (Cmp ''Amount'' AtLeast 1000)) (rows text_amount_df) =
     [[Num 0, Text ''2500'', Num 0], [Num 1, Text ''50'', Num 1],
      [Num 3, Text ''7000'', Num 1], [Num 5, Text ''999'', Num 0]]"
  by (simp add: literal_def text_column_def cell_of_def text_amount_df_def whole_text_1000)

lemma text_amount_ordered:
  "apply_order [''Time'', ''Amount'', ''Class''] (Some (''Amount'', Descending))
     [[Num 0, Text ''2500'', Num 0], [Num 1, Text ''50'', Num 1],
      [Num 3, Text ''7000'', Num 1], [Num 5, Text ''999'', Num 0]] =
     [[Num 5, Text ''999'', Num 0], [Num 3, Text ''7000'', Num 1],
      [Num 1, Text ''50'', Num 1], [Num 0, Text ''2500'', Num 0]]"
  by (simp add: apply_order_def cell_of_def)

subsection \<open>The steps of ingestion\<close>

lemma missing_cols_Nil_iff:
  "missing_cols df = [] \<longleftrightarrow> ''Time'' \<in> set (columns df) \<and> ''Amount'' \<in> set (columns df) \<and> ''Class'' \<in> set (columns df)"
  by (auto simp: missing_cols_def expected_cols_def)

lemma create_indexes_no_value_error:
  "fst (create_indexes ixs df s) \<noteq> Some (ValueError v)"
  by (induction ixs df s rule: create_indexes.induct) simp_all

lemma create_indexes_validated:
  assumes "missing_cols df = []"
  shows "create_indexes index_columns df s =
           (None, s\<lparr>indexes := insert ''idx_amount'' (insert ''idx_time'' (insert ''idx_class'' (indexes s))),
                   trace := trace s @ [CreateIndex ''idx_class'', CreateIndex ''idx_time'',
                                       CreateIndex ''idx_amount'']\<rparr>)"
  using assms by (simp add: missing_cols_Nil_iff index_columns_def log_op_def)

lemma ingested_frame:
  "registry (ingested df csv_path name s) = registry s"
  "registry_writable (ingested df csv_path name s) = registry_writable s"
  "raw_writable (ingested df csv_path name s) = raw_writable s"
  "db_accessible (ingested df csv_path name s) = db_accessible s"
  "digest (ingested df csv_path name s) = digest s"
  "number_text (ingested df csv_path name s) = number_text s"
  "project_root (ingested df csv_path name s) = project_root s"
  "tables (ingested df csv_path name s) = (tables s)(''raw_transactions'' \<mapsto> df)"
  "files (ingested df csv_path name s) = (files s)(raw_output_path s name \<mapsto> Csv df)"
  by (simp_all add: ingested_def)

lemma load_validation_failure:
  assumes "files s csv_path = Some (Csv df)" and "\<not> df_empty df" and "missing_cols df \<noteq> []"
  shows "load_raw_data now csv_path name s =
           (Inl (ValueError (Missing_required_columns (missing_cols df))),
            s\<lparr>trace := trace s @ [PathExists csv_path, ReadCsv csv_path]\<rparr>)"
  using assms by (simp add: load_raw_data_def log_op_def)

lemma load_after_validation_no_value_error:
  assumes "files s csv_path = Some (Csv df)" and "\<not> df_empty df" and "missing_cols df = []"
  shows "fst (load_raw_data now csv_path name s) \<noteq> Inl (ValueError v)"
  using assms
  by (simp add: load_raw_data_def to_csv_def save_to_sqlite_def create_indexes_validated
      class_mean_def log_op_def Let_def)

lemma load_written:
  assumes "files s csv_path = Some (Csv df)" and "\<not> df_empty df" and "missing_cols df = []"
    and "raw_writable s" and "db_accessible s"
  shows "load_raw_data now csv_path name s =
           (case class_mean df of Some e \<Rightarrow> Inl e | None \<Rightarrow> Inr df,
            record_metadata now name (calculate_data_hash df s) (length (rows df))
              (length (columns df)) (raw_output_path s name) (ingested df csv_path name s))"
  using assms
  by (simp add: load_raw_data_def to_csv_def save_to_sqlite_def create_indexes_validated
      log_op_def Let_def calculate_data_hash_def raw_output_path_def ingested_def insert_commute
      split: option.splits)

lemma load_success:
  assumes "files s csv_path = Some (Csv df)" and "\<not> df_empty df" and "missing_cols df = []"
    and "raw_writable s" and "db_accessible s" and "\<not> text_column df ''Class''"
  shows "load_raw_data now csv_path name s =
           (Inr df,
            record_metadata now name (calculate_data_hash df s) (length (rows df))
              (length (columns df)) (raw_output_path s name) (ingested df csv_path name s))"
  using assms(6) by (simp add: load_written [OF assms(1-5)] class_mean_def)




lemma record_metadata_frame:
  "files (record_metadata now name h n m path s) = files s"
  "tables (record_metadata now name h n m path s) = tables s"
  "indexes (record_metadata now name h n m path s) = indexes s"
  "raw_writable (record_metadata now name h n m path s) = raw_writable s"
  "db_accessible (record_metadata now name h n m path s) = db_accessible s"
  "registry_writable (record_metadata now name h n m path s) = registry_writable s"
  "digest (record_metadata now name h n m path s) = digest s"
  "number_text (record_metadata now name h n m path s) = number_text s"
  "project_root (record_metadata now name h n m path s) = project_root s"
  by (auto simp: record_metadata_def record_metadata_try_def write_registry_def log_op_def Let_def
      split: registry_file.splits)

lemma fresh_in: "files fresh_store ''in.csv'' = Some (Csv sample_df)"
  by (simp add: fresh_store_def)


lemma second_valid:
  "\<not> df_empty second_df" "missing_cols second_df = []" "\<not> text_column second_df ''Class''"
  by (simp_all add: df_empty_def missing_cols_def expected_cols_def text_column_def cell_of_def
      second_df_def)

section \<open>Ingestion: failures before any write\<close>

text \<open>
  C7. For every source path that does not reference an existing file, \<open>load_raw_data\<close>
  fails with a NotFound-kind error before any directory or database interaction: the
  exception is \<open>FileNotFoundError\<close>, and the only step performed is the existence check
  itself, so no file, table, index or registry entry is read or written.
\<close>

theorem load_raw_data_missing_source:
  assumes "files s csv_path = None"
  shows "fst (load_raw_data now csv_path name s) = Inl (FileNotFoundError csv_path) \<and>
         kind_of (FileNotFoundError csv_path) = NotFound \<and>
         snd (load_raw_data now csv_path name s) = s\<lparr>trace := trace s @ [PathExists csv_path]\<rparr>"
  using assms by (simp add: load_raw_data_def log_op_def)

theorem load_raw_data_missing_source_witness:
  "files fresh_store ''nowhere.csv'' = None \<and>
   fst (load_raw_data ''t1'' ''nowhere.csv'' ''cc'' fresh_store) = Inl (FileNotFoundError ''nowhere.csv'') \<and>
   trace (snd (load_raw_data ''t1'' ''nowhere.csv'' ''cc'' fresh_store)) = [PathExists ''nowhere.csv'']"
proof -
  have h: "files fresh_store ''nowhere.csv'' = None"
    by (simp add: fresh_store_def)
  show ?thesis
    using h load_raw_data_missing_source [OF h, of "''t1''" "''cc''"]
    by (simp add: fresh_store_def)
qed

text \<open>
  C3. For every input file that exists and is non-empty but lacks the \<open>Amount\<close> column,
  \<open>load_raw_data\<close> fails with a Validation-kind error that names \<open>Amount\<close>, and writes
  nothing: the files, the tables and indexes of the database and the metadata registry
  are unchanged, and the only steps performed are the existence check and the read of
  the source.
\<close>

theorem load_raw_data_without_amount:
  assumes "files s csv_path = Some (Csv df)" and "\<not> df_empty df"
    and "''Amount'' \<notin> set (columns df)"
  shows "\<exists>missing e s'.
           load_raw_data now csv_path name s = (Inl e, s') \<and>
           e = ValueError (Missing_required_columns missing) \<and>
           ''Amount'' \<in> set missing \<and>
           kind_of e = Validation \<and>
           files s' = files s \<and> tables s' = tables s \<and> indexes s' = indexes s \<and>
           registry s' = registry s \<and>
           trace s' = trace s @ [PathExists csv_path, ReadCsv csv_path]"
proof -
  have m: "''Amount'' \<in> set (missing_cols df)"
    using assms(3) by (simp add: missing_cols_def expected_cols_def)
  then have "missing_cols df \<noteq> []" by auto
  from load_validation_failure [OF assms(1,2) this] m show ?thesis
    by simp
qed

theorem load_raw_data_without_amount_witness:
  "files fresh_store ''lower.csv'' = Some (Csv lowercase_df) \<and> \<not> df_empty lowercase_df \<and>
   ''Amount'' \<notin> set (columns lowercase_df) \<and>
   (\<exists>missing e s'.
      load_raw_data ''t1'' ''lower.csv'' ''cc'' fresh_store = (Inl e, s') \<and>
      e = ValueError (Missing_required_columns missing) \<and>
      ''Amount'' \<in> set missing \<and>
      kind_of e = Validation \<and>
      files s' = files fresh_store \<and> tables s' = tables fresh_store \<and>
      indexes s' = indexes fresh_store \<and> registry s' = registry fresh_store \<and>
      trace s' = trace fresh_store @ [PathExists ''lower.csv'', ReadCsv ''lower.csv''])"
proof -
  have h1: "files fresh_store ''lower.csv'' = Some (Csv lowercase_df)"
    by (simp add: fresh_store_def)
  have h2: "\<not> df_empty lowercase_df"
    by (simp add: df_empty_def lowercase_df_def)
  have h3: "''Amount'' \<notin> set (columns lowercase_df)"
    by (simp add: lowercase_df_def)
  show ?thesis
    using h1 h2 h3 load_raw_data_without_amount [OF h1 h2 h3, of "''t1''" "''cc''"]
    by simp
qed

text \<open>
  C10. The required-column validation of \<open>load_raw_data\<close> matches exactly the names
  \<open>Time\<close>, \<open>Amount\<close> and \<open>Class\<close>, case-sensitively. For every existing, non-empty
  input table that has all three names the validation passes, whatever other columns
  there are (no \<open>ValueError\<close> leaves \<open>load_raw_data\<close>); for every one that lacks any of
  them, \<open>load_raw_data\<close> fails with a Validation-kind error that lists exactly the
  missing names, in the order \<open>Time\<close>, \<open>Amount\<close>, \<open>Class\<close>.
\<close>

theorem required_columns_validation:
  assumes "files s csv_path = Some (Csv df)" and "\<not> df_empty df"
  shows "(set [''Time'', ''Amount'', ''Class''] \<subseteq> set (columns df) \<longrightarrow>
            (\<forall>v. fst (load_raw_data now csv_path name s) \<noteq> Inl (ValueError v))) \<and>
         (\<not> set [''Time'', ''Amount'', ''Class''] \<subseteq> set (columns df) \<longrightarrow>
            fst (load_raw_data now csv_path name s) =
              Inl (ValueError (Missing_required_columns
                     (filter (\<lambda>c. c \<notin> set (columns df)) [''Time'', ''Amount'', ''Class'']))) \<and>
            kind_of (ValueError (Missing_required_columns
                     (filter (\<lambda>c. c \<notin> set (columns df)) [''Time'', ''Amount'', ''Class'']))) = Validation \<and>
            filter (\<lambda>c. c \<notin> set (columns df)) [''Time'', ''Amount'', ''Class''] \<noteq> [])"
proof (intro conjI impI allI)
  fix v
  assume "set [''Time'', ''Amount'', ''Class''] \<subseteq> set (columns df)"
  then have "missing_cols df = []"
    by (simp add: missing_cols_def expected_cols_def)
  from load_after_validation_no_value_error [OF assms this]
  show "fst (load_raw_data now csv_path name s) \<noteq> Inl (ValueError v)" .
next
  assume a: "\<not> set [''Time'', ''Amount'', ''Class''] \<subseteq> set (columns df)"
  have eq: "filter (\<lambda>c. c \<notin> set (columns df)) [''Time'', ''Amount'', ''Class''] = missing_cols df"
    by (simp add: missing_cols_def expected_cols_def)
  have ne: "missing_cols df \<noteq> []"
    using a by (auto simp: missing_cols_def expected_cols_def)
  show "fst (load_raw_data now csv_path name s) =
          Inl (ValueError (Missing_required_columns
                 (filter (\<lambda>c. c \<notin> set (columns df)) [''Time'', ''Amount'', ''Class''])))"
    unfolding eq using load_validation_failure [OF assms ne] by simp
  show "filter (\<lambda>c. c \<notin> set (columns df)) [''Time'', ''Amount'', ''Class''] \<noteq> []"
    unfolding eq by (rule ne)
qed simp

theorem required_columns_validation_witness:
  "files fresh_store ''second.csv'' = Some (Csv second_df) \<and> \<not> df_empty second_df \<and>
   set [''Time'', ''Amount'', ''Class''] \<subseteq> set (columns second_df) \<and>
   fst (load_raw_data ''t1'' ''second.csv'' ''cc'' fresh_store) \<noteq> Inl (ValueError Parser_failure) \<and>
   files fresh_store ''lower.csv'' = Some (Csv lowercase_df) \<and> \<not> df_empty lowercase_df \<and>
   \<not> set [''Time'', ''Amount'', ''Class''] \<subseteq> set (columns lowercase_df) \<and>
   fst (load_raw_data ''t1'' ''lower.csv'' ''cc'' fresh_store) =
     Inl (ValueError (Missing_required_columns [''Amount'']))"
proof -
  have a1: "files fresh_store ''second.csv'' = Some (Csv second_df)"
    by (simp add: fresh_store_def)
  have a2: "\<not> df_empty second_df"
    by (rule second_valid(1))
  have a3: "set [''Time'', ''Amount'', ''Class''] \<subseteq> set (columns second_df)"
    by (simp add: second_df_def)
  have b1: "files fresh_store ''lower.csv'' = Some (Csv lowercase_df)"
    by (simp add: fresh_store_def)
  have b2: "\<not> df_empty lowercase_df"
    by (simp add: df_empty_def lowercase_df_def)
  have b3: "\<not> set [''Time'', ''Amount'', ''Class''] \<subseteq> set (columns lowercase_df)"
    by (simp add: lowercase_df_def)
  have b4: "filter (\<lambda>c. c \<notin> set (columns lowercase_df)) [''Time'', ''Amount'', ''Class''] = [''Amount'']"
    by (simp add: lowercase_df_def)
  show ?thesis
    using a1 a2 a3 b1 b2 b3
      required_columns_validation [OF a1 a2, of "''t1''" "''cc''"]
      required_columns_validation [OF b1 b2, of "''t1''" "''cc''"]
    by (simp only: b4) blast
qed

section \<open>High-value transactions\<close>

text \<open>
  C6, as stated: for every store state the rows returned for threshold 1000 have an
  amount of at least 1000, and a limit of 3 gives the 3 largest. The file \<open>text.csv\<close>
  has an amount written \<open>1,200.50\<close>, so \<open>read_csv\<close> keeps the column as strings and
  \<open>to_sql\<close> declares it \<open>TEXT\<close>; after loading it SQLite compares and orders the
  amounts as text. The rows with amounts 999 and 50 are returned, the row with 1,200.50
  is not, and with a limit of 3 the rows returned are 999, 7000 and 50.
\<close>

theorem high_value_text_amount_counterexample:
  "fst (load_raw_data ''t1'' ''text.csv'' ''cc'' fresh_store) = Inr text_amount_df \<and>
   get_high_value_transactions 1000 None (snd (load_raw_data ''t1'' ''text.csv'' ''cc'' fresh_store)) =
     Inr \<lparr>columns = [''Time'', ''Amount'', ''Class''],
          rows = [[Num 5, Text ''999'', Num 0], [Num 3, Text ''7000'', Num 1],
                  [Num 1, Text ''50'', Num 1], [Num 0, Text ''2500'', Num 0]]\<rparr> \<and>
   get_high_value_transactions 1000 (Some 3)
       (snd (load_raw_data ''t1'' ''text.csv'' ''cc'' fresh_store)) =
     Inr \<lparr>columns = [''Time'', ''Amount'', ''Class''],
          rows = [[Num 5, Text ''999'', Num 0], [Num 3, Text ''7000'', Num 1],
                  [Num 1, Text ''50'', Num 1]]\<rparr>"
proof -
  let ?s1 = "snd (load_raw_data ''t1'' ''text.csv'' ''cc'' fresh_store)"
  have a: "files fresh_store ''text.csv'' = Some (Csv text_amount_df)" "raw_writable fresh_store"
    "db_accessible fresh_store" "number_text fresh_store = whole_text"
    by (simp_all add: fresh_store_def)
  have l: "load_raw_data ''t1'' ''text.csv'' ''cc'' fresh_store =
             (Inr text_amount_df,
              record_metadata ''t1'' ''cc'' (calculate_data_hash text_amount_df fresh_store)
                (length (rows text_amount_df)) (length (columns text_amount_df))
                (raw_output_path fresh_store ''cc'')
                (ingested text_amount_df ''text.csv'' ''cc'' fresh_store))"
    by (rule load_success [OF a(1) text_amount_valid(1,2) a(2,3) text_amount_valid(3)])
  have d: "db_accessible ?s1" and t: "tables ?s1 ''raw_transactions'' = Some text_amount_df"
    and n: "number_text ?s1 = whole_text"
    unfolding l snd_conv record_metadata_frame ingested_frame
    using a(3,4) by simp_all
  have c: "''Amount'' \<in> set (columns text_amount_df)"
    by (simp add: text_amount_columns)
  have r1: "fst (load_raw_data ''t1'' ''text.csv'' ''cc'' fresh_store) = Inr text_amount_df"
    unfolding l by simp
  have r2: "get_high_value_transactions 1000 None ?s1 =
     Inr \<lparr>columns = [''Time'', ''Amount'', ''Class''],
          rows = [[Num 5, Text ''999'', Num 0], [Num 3, Text ''7000'', Num 1],
                  [Num 1, Text ''50'', Num 1], [Num 0, Text ''2500'', Num 0]]\<rparr>"
    unfolding high_value_unfold [OF d t c] n text_amount_stored text_amount_selected
      text_amount_columns text_amount_ordered
    by (simp add: apply_limit_def limit_clause_def)
  have r3: "get_high_value_transactions 1000 (Some 3) ?s1 =
     Inr \<lparr>columns = [''Time'', ''Amount'', ''Class''],
          rows = [[Num 5, Text ''999'', Num 0], [Num 3, Text ''7000'', Num 1],
                  [Num 1, Text ''50'', Num 1]]\<rparr>"
    unfolding high_value_unfold [OF d t c] n text_amount_stored text_amount_selected
      text_amount_columns text_amount_ordered
    by (simp add: apply_limit_def limit_clause_def)
  show ?thesis
    by (intro conjI) (rule r1, rule r2, rule r3)
qed

text \<open>
  C6, amended. For every store state whose \<open>Amount\<close> column holds numbers and NULLs
  only, and in which the query can run, \<open>get_high_value_transactions\<close> with threshold
  1000 returns exactly the stored rows whose amount is at least 1000, in descending
  order of amount; with a limit of 3 it returns at most 3 rows, the first 3 of that
  order, so no row left out has a larger amount than a row returned.
\<close>

theorem high_value_transactions_sorted_top3:
  assumes "db_accessible s" and "tables s ''raw_transactions'' = Some t"
    and "''Amount'' \<in> set (columns t)" and "\<not> text_column t ''Amount''"
  shows "\<exists>hv top.
           get_high_value_transactions 1000 None s = Inr hv \<and>
           get_high_value_transactions 1000 (Some 3) s = Inr top \<and>
           mset (rows hv) =
             filter_mset (\<lambda>r. \<exists>a. cell_of (columns t) r ''Amount'' = Num a \<and> 1000 \<le> a)
               (mset (stored_rows (number_text s) t)) \<and>
           (\<forall>r \<in> set (rows hv). \<exists>a. cell_of (columns t) r ''Amount'' = Num a \<and> 1000 \<le> a) \<and>
           sorted_wrt (\<lambda>r r'. \<exists>a a'. cell_of (columns t) r ''Amount'' = Num a \<and>
                                 cell_of (columns t) r' ''Amount'' = Num a' \<and> a' \<le> a) (rows hv) \<and>
           length (rows top) \<le> 3 \<and>
           rows top = take 3 (rows hv) \<and>
           (\<forall>r \<in> set (rows top). \<forall>r' \<in> set (drop 3 (rows hv)).
              \<exists>a a'. cell_of (columns t) r ''Amount'' = Num a \<and>
                     cell_of (columns t) r' ''Amount'' = Num a' \<and> a' \<le> a)"
proof -
  let ?amt = "\<lambda>r. cell_of (columns t) r ''Amount''"
  let ?big = "\<lambda>r. \<exists>a. ?amt r = Num a \<and> 1000 \<le> a"
  let ?ge = "\<lambda>r r'. \<exists>a a'. ?amt r = Num a \<and> ?amt r' = Num a' \<and> a' \<le> a"
  let ?st = "stored_rows (number_text s) t"
  let ?sel = "filter (holds (number_text s) t (Cmp ''Amount'' AtLeast 1000)) ?st"
  let ?all = "apply_order (columns t) (Some (''Amount'', Descending)) ?sel"
  let ?hv = "\<lparr>columns = columns t, rows = ?all\<rparr>"
  let ?top = "\<lparr>columns = columns t, rows = take 3 ?all\<rparr>"
  have hv: "get_high_value_transactions 1000 None s = Inr ?hv"
    using high_value_unfold [OF assms(1-3), of 1000 None]
    by (simp add: limit_clause_def apply_limit_def del: holds.simps)
  have top: "get_high_value_transactions 1000 (Some 3) s = Inr ?top"
    using high_value_unfold [OF assms(1-3), of 1000 "Some 3"]
    by (simp add: limit_clause_def apply_limit_def del: holds.simps)
  have sel: "?sel = filter ?big ?st"
    by (rule filter_cong) (simp_all add: holds_numeric_at_least [OF assms(4)] del: holds.simps)
  have ms: "mset ?all = filter_mset ?big (mset ?st)"
    by (simp add: apply_order_mset sel del: holds.simps)
  have ge: "\<forall>r \<in> set ?all. ?big r"
  proof
    fix r assume "r \<in> set ?all"
    then have "r \<in># mset ?all" by simp
    then show "?big r" unfolding ms by simp
  qed
  have "sorted_wrt (\<lambda>r r'. sql_order (?amt r') \<le> sql_order (?amt r)) ?all"
    by (rule apply_order_desc_sorted)
  then have srt: "sorted_wrt ?ge ?all"
  proof (rule sorted_wrt_mono_rel [rotated])
    fix r r' assume "r \<in> set ?all" "r' \<in> set ?all"
      and le: "sql_order (?amt r') \<le> sql_order (?amt r)"
    with ge obtain a a' where "?amt r = Num a" "?amt r' = Num a'" by blast
    with le show "?ge r r'" by (simp add: sql_order_Num_le del: sql_order.simps)
  qed
  have largest: "\<forall>r \<in> set (take 3 ?all). \<forall>r' \<in> set (drop 3 ?all). ?ge r r'"
    using sorted_wrt_take_drop [OF srt] by blast
  show ?thesis
    apply (rule exI [of _ ?hv], rule exI [of _ ?top])
    using hv top ms ge srt largest by (simp del: holds.simps)
qed

theorem high_value_transactions_sorted_top3_witness:
  "db_accessible sample_store \<and> tables sample_store ''raw_transactions'' = Some sample_df \<and>
   ''Amount'' \<in> set (columns sample_df) \<and> \<not> text_column sample_df ''Amount'' \<and>
   (\<exists>hv top.
      get_high_value_transactions 1000 None sample_store = Inr hv \<and>
      get_high_value_transactions 1000 (Some 3) sample_store = Inr top \<and>
      rows top = take 3 (rows hv) \<and> length (rows top) \<le> 3)"
proof -
  have h1: "db_accessible sample_store"
    by (simp add: sample_store_def fresh_store_def)
  have h2: "tables sample_store ''raw_transactions'' = Some sample_df"
    by (simp add: sample_store_def)
  have h3: "''Amount'' \<in> set (columns sample_df)"
    by (simp add: sample_df_def)
  have h4: "\<not> text_column sample_df ''Amount''"
    by (simp add: text_column_def sample_df_def cell_of_def)
  from high_value_transactions_sorted_top3 [OF h1 h2 h3 h4]
  obtain hv top where
    "get_high_value_transactions 1000 None sample_store = Inr hv"
    "get_high_value_transactions 1000 (Some 3) sample_store = Inr top"
    "rows top = take 3 (rows hv)" "length (rows top) \<le> 3"
    by blast
  then show ?thesis using h1 h2 h3 h4 by blast
qed

section \<open>Row limits\<close>

text \<open>
  C2, at a limit of zero. The docstrings give \<open>limit\<close> as the maximum number of rows to
  return, with \<open>None\<close> for all. \<open>get_fraud_transactions\<close> with \<open>limit=0\<close> on a table
  with two fraud rows returns both of them, the same result as with the limit omitted:
  \<open>if limit:\<close> appends the clause only for a limit other than zero.
\<close>

theorem get_fraud_transactions_limit_zero:
  "get_fraud_transactions (Some 0) sample_store =
     Inr \<lparr>columns = [''Time'', ''Amount'', ''Class''],
          rows = [[Num 1, Num 50, Num 1], [Num 3, Num 7000, Num 1]]\<rparr> \<and>
   get_fraud_transactions (Some 0) sample_store = get_fraud_transactions None sample_store"
proof -
  have d: "db_accessible sample_store"
    by (simp add: sample_store_def fresh_store_def)
  have t: "tables sample_store ''raw_transactions'' = Some sample_df"
    by (simp add: sample_store_def)
  have c: "''Class'' \<in> set (columns sample_df)"
    by (simp add: sample_df_def)
  have h: "holds as_text sample_df (Cmp ''Class'' Equals 1) =
             (\<lambda>r. cell_of (columns sample_df) r ''Class'' = Num 1)" for as_text
    by (rule ext) (rule holds_numeric_equals [OF sample_numeric])
  have f: "filter (\<lambda>r. cell_of (columns sample_df) r ''Class'' = Num 1) (rows sample_df) =
             [[Num 1, Num 50, Num 1], [Num 3, Num 7000, Num 1]]"
    by (simp add: sample_df_def cell_of_def)
  have cols: "columns sample_df = [''Time'', ''Amount'', ''Class'']"
    by (simp add: sample_df_def)
  show ?thesis
    unfolding get_fraud_transactions_def select_where_class [OF d t c]
      apply_limit_zero apply_limit_omitted sample_stored h f
    by (simp add: cols)
qed

section \<open>Transaction counts\<close>

text \<open>
  C1, on a table without rows. \<open>COUNT(*)\<close> is 0 and both \<open>SUM\<close>s are NULL, so
  \<open>int(result['fraud'].iloc[0])\<close> raises \<open>TypeError\<close> before the guard
  \<open>if total > 0 else 0\<close> is reached: \<open>get_transaction_count\<close> returns no rate.
\<close>

theorem get_transaction_count_empty_table_raises:
  "tables emptied_store ''raw_transactions'' =
     Some \<lparr>columns = [''Time'', ''Amount'', ''Class''], rows = []\<rparr> \<and>
   get_transaction_count emptied_store = Inl TypeError"
proof -
  have t: "tables emptied_store ''raw_transactions'' =
             Some \<lparr>columns = [''Time'', ''Amount'', ''Class''], rows = []\<rparr>"
    by (simp add: emptied_store_def)
  have d: "db_accessible emptied_store"
    by (simp add: emptied_store_def fresh_store_def)
  show ?thesis
    using t get_transaction_count_no_rows [OF d t] by simp
qed

text \<open>
  C9, on a table without rows. Every value of its \<open>Class\<close> column is 0 or 1, there
  being none, and \<open>get_transaction_count\<close> raises instead of returning counts with
  \<open>total = fraud + legitimate\<close>.
\<close>

theorem transaction_count_header_only_raises:
  "tables header_only_store ''raw_transactions'' =
     Some \<lparr>columns = [''Time'', ''V1'', ''Amount'', ''Class''], rows = []\<rparr> \<and>
   get_transaction_count header_only_store = Inl TypeError \<and>
   kind_of TypeError = Unexpected"
proof -
  have t: "tables header_only_store ''raw_transactions'' =
             Some \<lparr>columns = [''Time'', ''V1'', ''Amount'', ''Class''], rows = []\<rparr>"
    by (simp add: header_only_store_def)
  have d: "db_accessible header_only_store"
    by (simp add: header_only_store_def fresh_store_def)
  show ?thesis
    using t get_transaction_count_no_rows [OF d t] by simp
qed

section \<open>Ingestion: the metadata registry\<close>







end
